theory Spec2Isabelle
  imports Main
begin

section \<open>The Spark dataset wrapper of \<^verbatim>\<open>mlflow/data/spark_dataset.py\<close>\<close>

text \<open>
  The module wraps a Spark DataFrame and its provenance into a \<^verbatim>\<open>SparkDataset\<close> and
  offers two factories, \<^verbatim>\<open>load_delta\<close> and \<^verbatim>\<open>from_spark\<close>. Exceptions are values of
  a result type, the calls that leave the module (Delta probes, version lookups, loading,
  schema inference, counting, logging) are recorded in a trace of events, in call order,
  and the one piece of mutable state, the cell behind \<^verbatim>\<open>cached_property\<close>, is a field
  of the dataset that the accessor returns updated.
\<close>

subsection \<open>Errors\<close>

datatype error_code = INVALID_PARAMETER_VALUE | INTERNAL_ERROR

datatype error =
    MlflowException error_code
  | AttributeError
  | UnboundLocalError
  | EngineFailure

subsection \<open>Tables\<close>

text \<open>
  A Spark DataFrame as the module uses it: its column names (\<^verbatim>\<open>df.columns\<close>, a list in
  which a name may occur more than once) and its rows in the engine's order, each row
  holding one cell per column. A pandas DataFrame is the same data held locally.
\<close>

record 'c spark_df =
  columns :: "string list"
  rows :: "'c list list"

record 'c pandas_df =
  pcolumns :: "string list"
  prows :: "'c list list"

text \<open>\<^verbatim>\<open>DataFrame.limit(n)\<close>: the first \<open>n\<close> rows, all of them when there are fewer.\<close>

definition limit :: "nat \<Rightarrow> 'c spark_df \<Rightarrow> 'c spark_df" where
  "limit n d = d\<lparr>rows := take n (rows d)\<rparr>"

text \<open>\<^verbatim>\<open>DataFrame.toPandas()\<close>: the same columns and rows, collected.\<close>

definition toPandas :: "'c spark_df \<Rightarrow> 'c pandas_df" where
  "toPandas d = \<lparr>pcolumns = columns d, prows = rows d\<rparr>"

text \<open>
  The cells of one row that stand under the labels satisfying \<open>P\<close>. Both pandas
  operations below select by label, so a label that occurs twice selects both columns.
\<close>

definition cells_where :: "(string \<Rightarrow> bool) \<Rightarrow> string list \<Rightarrow> 'c list \<Rightarrow> 'c list" where
  "cells_where P cs r = map snd (filter (\<lambda>(c, v). P c) (zip cs r))"

text \<open>\<^verbatim>\<open>df.drop(columns=t)\<close>: every column labelled \<open>t\<close> is removed; the index (the rows) stays.\<close>

definition drop_columns :: "string \<Rightarrow> 'c pandas_df \<Rightarrow> 'c pandas_df" where
  "drop_columns t d =
     \<lparr>pcolumns = filter (\<lambda>c. c \<noteq> t) (pcolumns d),
      prows = map (cells_where (\<lambda>c. c \<noteq> t) (pcolumns d)) (prows d)\<rparr>"

text \<open>
  \<^verbatim>\<open>df[t]\<close>: the data under the label \<open>t\<close>, one value per row when the label is unique
  (pandas then hands it out as a Series named \<open>t\<close>).
\<close>

definition getitem :: "'c pandas_df \<Rightarrow> string \<Rightarrow> 'c pandas_df" where
  "getitem d t =
     \<lparr>pcolumns = filter (\<lambda>c. c = t) (pcolumns d),
      prows = map (cells_where (\<lambda>c. c = t) (pcolumns d)) (prows d)\<rparr>"

subsection \<open>Sources, JSON values, events\<close>

text \<open>
  Modelled from the spec: the two provenance descriptors, whose classes
  (\<^verbatim>\<open>SparkDatasetSource\<close>, \<^verbatim>\<open>DeltaDatasetSource\<close>) are not in the sources at hand. The
  generic source is identified by a path, a table name or a query text, the versioned
  table source by a path or a table name plus an optional version.
\<close>

datatype dataset_source =
    SparkDatasetSource (src_path: "string option") (src_table_name: "string option")
      (src_sql: "string option")
  | DeltaDatasetSource (delta_path: "string option") (delta_table_name: "string option")
      (delta_table_version: "string option")

datatype json = JInt int | JStr string | JList "json list" | JDict "(string \<times> json) list"

datatype event =
    IsDeltaTablePath string
  | IsDeltaTable string
  | LatestVersionFromPath string
  | LatestVersionFromTableName string
  | SourceLoad dataset_source
  | InferSchema
  | CountApprox nat nat
  | LoggerCall string

subsection \<open>The collaborators outside the module\<close>

text \<open>
  What the module imports and calls, taken as parameters: the helpers of
  \<^verbatim>\<open>mlflow.data.spark_delta_utils\<close>, \<^verbatim>\<open>DeltaDatasetSource.load\<close>, \<^verbatim>\<open>_infer_schema\<close>,
  \<^verbatim>\<open>Schema.to_dict\<close>, \<^verbatim>\<open>json.dumps\<close> and \<^verbatim>\<open>rdd.countApprox\<close>. A call that raises is
  the value \<open>None\<close> for loading and for schema inference; the probes and the version
  lookups return a value on every input.
\<close>

record ('c, 's) env =
  is_delta_table_path :: "string \<Rightarrow> bool"
  is_delta_table :: "string \<Rightarrow> bool"
  try_get_delta_table_latest_version_from_path :: "string \<Rightarrow> string option"
  try_get_delta_table_latest_version_from_table_name :: "string \<Rightarrow> string option"
  source_load :: "dataset_source \<Rightarrow> 'c spark_df option"
  infer_schema :: "'c spark_df \<Rightarrow> 's option"
  schema_to_dict :: "'s \<Rightarrow> json"
  json_dumps :: "json \<Rightarrow> string"
  countApprox :: "'c spark_df \<Rightarrow> nat \<Rightarrow> nat \<Rightarrow> int"

text \<open>
  The attributes of a \<^verbatim>\<open>logging.Logger\<close>. Calling a method that is not among them
  raises \<^verbatim>\<open>AttributeError\<close> before anything is logged.
\<close>

definition Logger_attributes :: "string list" where
  "Logger_attributes =
     [''name'', ''level'', ''parent'', ''propagate'', ''handlers'', ''disabled'', ''filters'',
      ''manager'', ''root'', ''setLevel'', ''debug'', ''info'', ''warning'', ''warn'', ''error'',
      ''exception'', ''critical'', ''fatal'', ''log'', ''findCaller'', ''makeRecord'', ''_log'',
      ''_cache'', ''handle'', ''addHandler'', ''removeHandler'', ''hasHandlers'',
      ''callHandlers'', ''getEffectiveLevel'', ''isEnabledFor'', ''getChild'', ''getChildren'',
      ''addFilter'', ''removeFilter'', ''filter'']"

definition logger_call :: "string \<Rightarrow> error + event list" where
  "logger_call attr =
     (if attr \<in> set Logger_attributes then Inr [LoggerCall attr] else Inl AttributeError)"

subsection \<open>The dataset\<close>

text \<open>
  The fields \<^verbatim>\<open>_df\<close>, \<^verbatim>\<open>_targets\<close>, \<^verbatim>\<open>_source\<close>, \<^verbatim>\<open>_name\<close>, \<^verbatim>\<open>_digest\<close> and the
  entry \<^verbatim>\<open>schema\<close> that \<^verbatim>\<open>cached_property\<close> keeps in the instance dictionary:
  \<open>None\<close> while there is no entry, \<open>Some v\<close> once the value \<open>v\<close> (a schema or
  \<^verbatim>\<open>None\<close>) has been stored.
\<close>

record ('c, 's) SparkDataset =
  df :: "'c spark_df"
  targets :: "string option"
  source :: dataset_source
  name :: "string option"
  digest :: "string option"
  schema_cache :: "'s option option"

text \<open>
  Modelled from the spec: \<^verbatim>\<open>Dataset.__init__\<close> of \<^verbatim>\<open>mlflow/data/dataset.py\<close>, which is
  not in the sources at hand. It stores source, name and digest; derived values are
  computed on first access, so nothing is cached yet.
\<close>

definition Dataset_init ::
  "'c spark_df \<Rightarrow> string option \<Rightarrow> dataset_source \<Rightarrow> string option \<Rightarrow> string option
     \<Rightarrow> ('c, 's) SparkDataset" where
  "Dataset_init d tg src nm dg =
     \<lparr>df = d, targets = tg, source = src, name = nm, digest = dg, schema_cache = None\<rparr>"

text \<open>
  The guard of \<^verbatim>\<open>SparkDataset.__init__\<close>:
  \<^verbatim>\<open>targets is not None and targets not in df.columns\<close>.
\<close>

definition targets_missing :: "string option \<Rightarrow> 'c spark_df \<Rightarrow> bool" where
  "targets_missing tg d = (case tg of None \<Rightarrow> False | Some t \<Rightarrow> t \<notin> set (columns d))"

text \<open>\<^verbatim>\<open>SparkDataset.__init__\<close>.\<close>

definition SparkDataset_init ::
  "'c spark_df \<Rightarrow> dataset_source \<Rightarrow> string option \<Rightarrow> string option \<Rightarrow> string option
     \<Rightarrow> error + ('c, 's) SparkDataset" where
  "SparkDataset_init d src tg nm dg =
     (if targets_missing tg d then Inl (MlflowException INVALID_PARAMETER_VALUE)
      else Inr (Dataset_init d tg src nm dg))"

text \<open>
  Construction as an operation with its trace of calls: lines 36 to 45 read
  \<^verbatim>\<open>df.columns\<close>, which the handle holds, and call nothing outside the module, so the
  trace of a construction is empty, whether it fails or not.
\<close>

definition construct ::
  "'c spark_df \<Rightarrow> dataset_source \<Rightarrow> string option \<Rightarrow> string option \<Rightarrow> string option
     \<Rightarrow> (error + ('c, 's) SparkDataset) \<times> event list" where
  "construct d src tg nm dg = (SparkDataset_init d src tg nm dg, [])"

subsection \<open>Profile and schema\<close>

text \<open>
  \<^verbatim>\<open>SparkDataset.profile\<close>: \<^verbatim>\<open>countApprox(timeout=1000, confidence=0.90)\<close>; the confidence
  is written in percent.
\<close>

definition profile :: "('c, 's) env \<Rightarrow> ('c, 's) SparkDataset \<Rightarrow> json \<times> event list" where
  "profile e ds =
     (let approx_count = countApprox e (df ds) 1000 90
      in (JDict [(''approx_count'', JInt approx_count)], [CountApprox 1000 90]))"

text \<open>
  The body of the \<^verbatim>\<open>schema\<close> property: the inference is tried, and the handler of
  \<^verbatim>\<open>except Exception\<close> calls \<^verbatim>\<open>_logger._warning\<close> and then returns \<^verbatim>\<open>None\<close>.
\<close>

definition schema_body ::
  "('c, 's) env \<Rightarrow> ('c, 's) SparkDataset \<Rightarrow> (error + 's option) \<times> event list" where
  "schema_body e ds =
     (case infer_schema e (df ds) of
        Some s \<Rightarrow> (Inr (Some s), [InferSchema])
      | None \<Rightarrow>
          (case logger_call ''_warning'' of
             Inl err \<Rightarrow> (Inl err, [InferSchema])
           | Inr logged \<Rightarrow> (Inr None, InferSchema # logged)))"

text \<open>
  \<^verbatim>\<open>cached_property\<close>: an entry in the instance dictionary is returned as it is; without
  one the body runs, and the value it returns is stored before it is handed out. A body
  that raises stores nothing.
\<close>

definition schema ::
  "('c, 's) env \<Rightarrow> ('c, 's) SparkDataset
     \<Rightarrow> (error + 's option) \<times> ('c, 's) SparkDataset \<times> event list" where
  "schema e ds =
     (case schema_cache ds of
        Some v \<Rightarrow> (Inr v, ds, [])
      | None \<Rightarrow>
          (case schema_body e ds of
             (Inl err, tr) \<Rightarrow> (Inl err, ds, tr)
           | (Inr v, tr) \<Rightarrow> (Inr v, ds\<lparr>schema_cache := Some v\<rparr>, tr)))"

subsection \<open>Serialisation\<close>

text \<open>
  \<^verbatim>\<open>SparkDataset._to_dict\<close>. The dictionary literal is evaluated entry by entry:
  \<^verbatim>\<open>self.schema\<close>, then \<^verbatim>\<open>.to_dict()\<close> on its value (an \<^verbatim>\<open>AttributeError\<close> on
  \<^verbatim>\<open>None\<close>), then \<^verbatim>\<open>self.profile\<close>; \<^verbatim>\<open>update\<close> overwrites the two keys in
  \<^verbatim>\<open>base_dict\<close>.
\<close>

definition to_dict ::
  "('c, 's) env \<Rightarrow> ('c, 's) SparkDataset \<Rightarrow> (string \<rightharpoonup> string)
     \<Rightarrow> (error + (string \<rightharpoonup> string)) \<times> ('c, 's) SparkDataset \<times> event list" where
  "to_dict e ds base_dict =
     (case schema e ds of
        (Inl err, ds', tr) \<Rightarrow> (Inl err, ds', tr)
      | (Inr None, ds', tr) \<Rightarrow> (Inl AttributeError, ds', tr)
      | (Inr (Some s), ds', tr) \<Rightarrow>
          (case profile e ds' of
             (p, tr') \<Rightarrow>
               (Inr (base_dict
                      (''schema'' \<mapsto> json_dumps e (JDict [(''mlflow_colspec'', schema_to_dict e s)]),
                       ''profile'' \<mapsto> json_dumps e p)),
                ds', tr @ tr')))"

subsection \<open>Conversion for pyfunc\<close>

record 'c PyFuncInputsOutputs =
  inputs :: "'c pandas_df"
  outputs :: "'c pandas_df option"

text \<open>\<^verbatim>\<open>SparkDataset.to_pyfunc\<close>.\<close>

definition to_pyfunc :: "('c, 's) SparkDataset \<Rightarrow> error + 'c PyFuncInputsOutputs" where
  "to_pyfunc ds =
     (let d = toPandas (limit 10000 (df ds))
      in case targets ds of
           Some t \<Rightarrow>
             if t \<notin> set (pcolumns d) then Inl (MlflowException INTERNAL_ERROR)
             else Inr \<lparr>inputs = drop_columns t d, outputs = Some (getitem d t)\<rparr>
         | None \<Rightarrow> Inr \<lparr>inputs = d, outputs = None\<rparr>)"

subsection \<open>The factories\<close>

text \<open>
  Python's \<^verbatim>\<open>version or lookup(...)\<close>: the left operand is kept when it is truthy, that
  is a non-empty string; only otherwise is the right operand evaluated, and its call
  enters the trace.
\<close>

definition truthy :: "string option \<Rightarrow> bool" where
  "truthy v = (case v of None \<Rightarrow> False | Some s \<Rightarrow> s \<noteq> [])"

definition or_else ::
  "string option \<Rightarrow> string option \<times> event list \<Rightarrow> string option \<times> event list" where
  "or_else v rhs = (if truthy v then (v, []) else rhs)"

text \<open>
  \<^verbatim>\<open>load_delta\<close>, lines 184 to 188: a version that is not given is looked up, by path
  when there is a path and by table name otherwise. After the check of line 178 one of
  the two is present, so the last branch is never taken.
\<close>

definition load_delta_version ::
  "('c, 's) env \<Rightarrow> string option \<Rightarrow> string option \<Rightarrow> string option
     \<Rightarrow> string option \<times> event list" where
  "load_delta_version e path table_name version =
     (if version = None then
        (case path of
           Some p \<Rightarrow> (try_get_delta_table_latest_version_from_path e p, [LatestVersionFromPath p])
         | None \<Rightarrow>
             (case table_name of
                Some t \<Rightarrow> (try_get_delta_table_latest_version_from_table_name e t,
                           [LatestVersionFromTableName t])
              | None \<Rightarrow> (None, [])))
      else (version, []))"

text \<open>
  \<^verbatim>\<open>load_delta\<close>, lines 190 and 191: without a name, a table name gives the name, followed
  by \<^verbatim>\<open>v\<close> and the version when there is a version.
\<close>

definition load_delta_name ::
  "string option \<Rightarrow> string option \<Rightarrow> string option \<Rightarrow> string option" where
  "load_delta_name nm table_name version =
     (case (nm, table_name) of
        (None, Some t) \<Rightarrow> Some (t @ (case version of Some v \<Rightarrow> ''v'' @ v | None \<Rightarrow> []))
      | _ \<Rightarrow> nm)"

text \<open>\<^verbatim>\<open>load_delta\<close>.\<close>

definition load_delta ::
  "('c, 's) env \<Rightarrow> string option \<Rightarrow> string option \<Rightarrow> string option \<Rightarrow> string option
     \<Rightarrow> string option \<Rightarrow> string option \<Rightarrow> (error + ('c, 's) SparkDataset) \<times> event list" where
  "load_delta e path table_name version tg nm dg =
     (if count_list [path, table_name] None \<noteq> 1
      then (Inl (MlflowException INVALID_PARAMETER_VALUE), [])
      else
        case load_delta_version e path table_name version of
          (version', tr) \<Rightarrow>
            (let nm' = load_delta_name nm table_name version';
                 src = DeltaDatasetSource path table_name version'
             in case source_load e src of
                  None \<Rightarrow> (Inl EngineFailure, tr @ [SourceLoad src])
                | Some d \<Rightarrow> (SparkDataset_init d src tg nm' dg, tr @ [SourceLoad src])))"

text \<open>
  The \<^verbatim>\<open>if\<close>/\<^verbatim>\<open>elif\<close> chain of \<^verbatim>\<open>from_spark\<close> that chooses the source. A chain
  that matches no branch leaves \<^verbatim>\<open>source\<close> unbound.
\<close>

definition from_spark_source ::
  "('c, 's) env \<Rightarrow> string option \<Rightarrow> string option \<Rightarrow> string option \<Rightarrow> string option
     \<Rightarrow> (error + dataset_source) \<times> event list" where
  "from_spark_source e path table_name version sql =
     (case sql of
        Some q \<Rightarrow> (Inr (SparkDatasetSource None None (Some q)), [])
      | None \<Rightarrow>
          (case path of
             Some p \<Rightarrow>
               if is_delta_table_path e p then
                 (case or_else version (try_get_delta_table_latest_version_from_path e p,
                                        [LatestVersionFromPath p]) of
                    (v, tr) \<Rightarrow> (Inr (DeltaDatasetSource (Some p) None v), IsDeltaTablePath p # tr))
               else if version = None then
                 (Inr (SparkDatasetSource (Some p) None None), [IsDeltaTablePath p])
               else (Inl (MlflowException INVALID_PARAMETER_VALUE), [IsDeltaTablePath p])
           | None \<Rightarrow>
               (case table_name of
                  Some t \<Rightarrow>
                    if is_delta_table e t then
                      (case or_else version
                              (try_get_delta_table_latest_version_from_table_name e t,
                               [LatestVersionFromTableName t]) of
                         (v, tr) \<Rightarrow> (Inr (DeltaDatasetSource None (Some t) v), IsDeltaTable t # tr))
                    else if version = None then
                      (Inr (SparkDatasetSource None (Some t) None), [IsDeltaTable t])
                    else (Inl (MlflowException INVALID_PARAMETER_VALUE), [IsDeltaTable t])
                | None \<Rightarrow> (Inl UnboundLocalError, []))))"

text \<open>\<^verbatim>\<open>from_spark\<close>.\<close>

definition from_spark ::
  "('c, 's) env \<Rightarrow> 'c spark_df \<Rightarrow> string option \<Rightarrow> string option \<Rightarrow> string option
     \<Rightarrow> string option \<Rightarrow> string option \<Rightarrow> string option \<Rightarrow> string option
     \<Rightarrow> (error + ('c, 's) SparkDataset) \<times> event list" where
  "from_spark e d path table_name version sql tg nm dg =
     (if count_list [path, table_name, sql] None \<noteq> 2
      then (Inl (MlflowException INVALID_PARAMETER_VALUE), [])
      else if count_list [sql, version] None = 0
      then (Inl (MlflowException INVALID_PARAMETER_VALUE), [])
      else
        case from_spark_source e path table_name version sql of
          (Inl err, tr) \<Rightarrow> (Inl err, tr)
        | (Inr src, tr) \<Rightarrow> (SparkDataset_init d src tg nm dg, tr))"

text \<open>
  The three configurations in which the specification lets \<^verbatim>\<open>from_spark\<close> fail with
  \<^verbatim>\<open>InvalidParameter\<close>, in the specification's words: not exactly one of path, table name
  and query is given; a version is given together with a query; a version is given for a
  path or a table that is not a Delta table.
\<close>

definition from_spark_spec_invalid ::
  "('c, 's) env \<Rightarrow> string option \<Rightarrow> string option \<Rightarrow> string option \<Rightarrow> string option
     \<Rightarrow> bool" where
  "from_spark_spec_invalid e path table_name version sql =
     (count_list [path, table_name, sql] None \<noteq> 2
      \<or> (version \<noteq> None \<and> sql \<noteq> None)
      \<or> (version \<noteq> None
          \<and> ((case path of Some p \<Rightarrow> \<not> is_delta_table_path e p | None \<Rightarrow> False)
             \<or> (case table_name of Some t \<Rightarrow> \<not> is_delta_table e t | None \<Rightarrow> False))))"

subsection \<open>Example tables and a stub environment\<close>

text \<open>
  Small concrete inputs on which the theorems below are exercised: a three-row table with
  the columns \<open>x\<close> and \<open>y\<close>, a table of 15000 rows, a table whose schema cannot be
  inferred, and an environment in which \<^verbatim>\<open>/delta/t\<close> and \<^verbatim>\<open>delta_t\<close> are Delta tables
  whose latest version is 7.
\<close>

definition xy_table :: "int spark_df" where
  "xy_table = \<lparr>columns = [''x'', ''y''], rows = [[1, 10], [2, 20], [3, 30]]\<rparr>"

definition big_table :: "int spark_df" where
  "big_table = \<lparr>columns = [''x'', ''y''], rows = replicate 15000 [0, 1]\<rparr>"

definition odd_table :: "int spark_df" where
  "odd_table = \<lparr>columns = [''unsupported''], rows = [[0]]\<rparr>"

definition path_source :: dataset_source where
  "path_source = SparkDatasetSource (Some ''/data/t'') None None"

definition stub_env :: "(int, string list) env" where
  "stub_env =
     \<lparr>is_delta_table_path = (\<lambda>p. p = ''/delta/t''),
      is_delta_table = (\<lambda>t. t = ''delta_t''),
      try_get_delta_table_latest_version_from_path = (\<lambda>p. Some ''7''),
      try_get_delta_table_latest_version_from_table_name = (\<lambda>t. Some ''7''),
      source_load = (\<lambda>s. Some xy_table),
      infer_schema = (\<lambda>d. if ''unsupported'' \<in> set (columns d) then None else Some (columns d)),
      schema_to_dict = (\<lambda>s. JList (map JStr s)),
      json_dumps = (\<lambda>j. case j of JDict kvs \<Rightarrow> concat (map fst kvs) | _ \<Rightarrow> []),
      countApprox = (\<lambda>d timeout confidence. int (length (rows d)))\<rparr>"

definition xy_dataset :: "(int, string list) SparkDataset" where
  "xy_dataset =
     \<lparr>df = xy_table, targets = Some ''y'', source = path_source, name = Some ''n'',
      digest = None, schema_cache = None\<rparr>"

definition odd_dataset :: "(int, string list) SparkDataset" where
  "odd_dataset =
     \<lparr>df = odd_table, targets = None, source = path_source, name = None, digest = None,
      schema_cache = None\<rparr>"

definition big_dataset :: "(int, string list) SparkDataset" where
  "big_dataset =
     \<lparr>df = big_table, targets = Some ''y'', source = path_source, name = None, digest = None,
      schema_cache = None\<rparr>"

definition example_base_dict :: "string \<rightharpoonup> string" where
  "example_base_dict =
     [''name'' \<mapsto> ''n'', ''digest'' \<mapsto> ''d'', ''source'' \<mapsto> ''s'',
      ''source_type'' \<mapsto> ''spark'']"

section \<open>Properties\<close>

subsection \<open>Selecting cells by label\<close>

lemma cells_where_nth_eq:
  "distinct cs \<Longrightarrow> length r = length cs \<Longrightarrow> i < length cs
     \<Longrightarrow> cells_where (\<lambda>c. c = cs ! i) cs r = [r ! i]"
proof (induction cs arbitrary: r i)
  case Nil
  then show ?case by simp
next
  case (Cons c cs)
  then obtain v vs where r: "r = v # vs" by (cases r) auto
  show ?case
  proof (cases i)
    case 0
    have "filter (\<lambda>(c', v). c' = c) (zip cs vs) = []"
      using Cons.prems(1) by (auto simp: filter_empty_conv dest: set_zip_leftD)
    with 0 r show ?thesis by (simp add: cells_where_def)
  next
    case (Suc j)
    with Cons.prems r have "cs ! j \<noteq> c" by auto
    moreover have "cells_where (\<lambda>c. c = cs ! j) cs vs = [vs ! j]"
      using Cons.IH[of vs j] Cons.prems r Suc by simp
    ultimately show ?thesis using Suc r by (auto simp add: cells_where_def)
  qed
qed

lemma cells_where_nth_neq:
  "distinct cs \<Longrightarrow> length r = length cs \<Longrightarrow> i < length cs
     \<Longrightarrow> cells_where (\<lambda>c. c \<noteq> cs ! i) cs r = take i r @ drop (Suc i) r"
proof (induction cs arbitrary: r i)
  case Nil
  then show ?case by simp
next
  case (Cons c cs)
  then obtain v vs where r: "r = v # vs" by (cases r) auto
  show ?case
  proof (cases i)
    case 0
    have "filter (\<lambda>(c', v). c' \<noteq> c) (zip cs vs) = zip cs vs"
      using Cons.prems(1) by (auto simp: filter_id_conv dest: set_zip_leftD)
    with 0 r Cons.prems show ?thesis by (simp add: cells_where_def)
  next
    case (Suc j)
    with Cons.prems r have "cs ! j \<noteq> c" by auto
    moreover have "cells_where (\<lambda>c. c \<noteq> cs ! j) cs vs = take j vs @ drop (Suc j) vs"
      using Cons.IH[of vs j] Cons.prems r Suc by simp
    ultimately show ?thesis using Suc r by (auto simp add: cells_where_def)
  qed
qed

subsection \<open>Construction\<close>

text \<open>
  C1. Constructing a dataset fails with \<^verbatim>\<open>INVALID_PARAMETER_VALUE\<close> exactly when
  \<open>targets\<close> is given and is not one of the dataframe's column names. With \<open>targets\<close>
  absent, or equal to a column name, construction succeeds and the dataset holds the
  dataframe, the targets, the source, the name and the digest it was given.
\<close>

theorem SparkDataset_init_targets:
  "((SparkDataset_init d src tg nm dg :: error + ('c, 's) SparkDataset)
       = Inl (MlflowException INVALID_PARAMETER_VALUE))
     = (\<exists>t. tg = Some t \<and> t \<notin> set (columns d))
   \<and> ((tg = None \<or> (\<exists>t. tg = Some t \<and> t \<in> set (columns d))) \<longrightarrow>
        (SparkDataset_init d src tg nm dg :: error + ('c, 's) SparkDataset)
          = Inr \<lparr>df = d, targets = tg, source = src, name = nm, digest = dg,
                 schema_cache = None\<rparr>)"
  by (cases tg) (simp_all add: SparkDataset_init_def Dataset_init_def targets_missing_def)

theorem SparkDataset_init_targets_witness:
  "(SparkDataset_init xy_table path_source (Some ''y'') (Some ''n'') None
      :: error + (int, string list) SparkDataset)
     = Inr \<lparr>df = xy_table, targets = Some ''y'', source = path_source, name = Some ''n'',
            digest = None, schema_cache = None\<rparr>
   \<and> (SparkDataset_init xy_table path_source (Some ''z'') (Some ''n'') None
      :: error + (int, string list) SparkDataset)
     = Inl (MlflowException INVALID_PARAMETER_VALUE)"
proof -
  have in_cols: "''y'' \<in> set (columns xy_table)"
    and not_in_cols: "''z'' \<notin> set (columns xy_table)"
    by (simp_all add: xy_table_def)
  show ?thesis
    using SparkDataset_init_targets [of xy_table path_source "Some ''y''" "Some ''n''" None,
        where ?'s = "string list"]
      SparkDataset_init_targets [of xy_table path_source "Some ''z''" "Some ''n''" None,
        where ?'s = "string list"]
      in_cols not_in_cols
    by simp
qed

subsection \<open>Conversion for pyfunc\<close>

lemma materialized_rows:
  "prows (toPandas (limit n d)) = take n (rows d)"
  "pcolumns (toPandas (limit n d)) = columns d"
  by (simp_all add: toPandas_def limit_def)

lemma to_pyfunc_absent:
  "targets ds = Some t \<Longrightarrow> t \<notin> set (pcolumns (toPandas (limit 10000 (df ds))))
     \<Longrightarrow> to_pyfunc ds = Inl (MlflowException INTERNAL_ERROR)"
  by (simp add: to_pyfunc_def Let_def)

lemma to_pyfunc_present:
  "targets ds = Some t \<Longrightarrow> t \<in> set (pcolumns (toPandas (limit 10000 (df ds))))
     \<Longrightarrow> to_pyfunc ds =
           Inr \<lparr>inputs = drop_columns t (toPandas (limit 10000 (df ds))),
                outputs = Some (getitem (toPandas (limit 10000 (df ds))) t)\<rparr>"
  by (simp add: to_pyfunc_def Let_def)

lemma to_pyfunc_unset:
  "targets ds = None
     \<Longrightarrow> to_pyfunc ds = Inr \<lparr>inputs = toPandas (limit 10000 (df ds)), outputs = None\<rparr>"
  by (simp add: to_pyfunc_def Let_def)

lemma filter_eq_distinct: "distinct cs \<Longrightarrow> t \<in> set cs \<Longrightarrow> filter (\<lambda>c. c = t) cs = [t]"
  by (induction cs) (auto simp add: filter_empty_conv)

lemma getitem_by_position:
  assumes "distinct (pcolumns M)" "\<forall>r\<in>set (prows M). length r = length (pcolumns M)"
    and "i < length (pcolumns M)"
  shows "getitem M (pcolumns M ! i)
           = \<lparr>pcolumns = [pcolumns M ! i], prows = map (\<lambda>r. [r ! i]) (prows M)\<rparr>"
  using assms
  by (simp add: getitem_def filter_eq_distinct cells_where_nth_eq cong: map_cong)

lemma drop_columns_by_position:
  assumes "distinct (pcolumns M)" "\<forall>r\<in>set (prows M). length r = length (pcolumns M)"
    and "i < length (pcolumns M)"
  shows "prows (drop_columns (pcolumns M ! i) M)
           = map (\<lambda>r. take i r @ drop (Suc i) r) (prows M)"
  using assms
  by (simp add: drop_columns_def cells_where_nth_neq cong: map_cong)

lemma xy_materialized:
  "toPandas (limit 10000 xy_table)
     = \<lparr>pcolumns = [''x'', ''y''], prows = [[1, 10], [2, 20], [3, 30]]\<rparr>"
  by (simp add: xy_table_def toPandas_def limit_def)

text \<open>
  C2. Let \<open>M\<close> be the materialized table. With \<open>targets\<close> set to \<open>t\<close> and no column of
  \<open>M\<close> labelled \<open>t\<close>, \<^verbatim>\<open>to_pyfunc\<close> fails with \<^verbatim>\<open>INTERNAL_ERROR\<close>. With \<open>t\<close> among the
  columns of \<open>M\<close> it returns as inputs the columns of \<open>M\<close> other than \<open>t\<close> and as outputs
  the data under \<open>t\<close> alone, row by row, both with as many rows as \<open>M\<close>; when the column
  names of \<open>M\<close> are distinct and \<open>t\<close> is the \<open>i\<close>-th of them, the outputs are the single
  column \<open>t\<close> holding the \<open>i\<close>-th cell of every row, and the inputs are the rows without
  that cell. With \<open>targets\<close> unset it returns \<open>M\<close> itself as inputs and no outputs.
\<close>

theorem to_pyfunc_split:
  assumes M: "M = toPandas (limit 10000 (df ds))"
  shows
  "(targets ds = Some t \<and> t \<notin> set (pcolumns M)
      \<longrightarrow> to_pyfunc ds = Inl (MlflowException INTERNAL_ERROR))
   \<and> (targets ds = Some t \<and> t \<in> set (pcolumns M)
      \<longrightarrow> (\<exists>ins outs.
            to_pyfunc ds = Inr \<lparr>inputs = ins, outputs = Some outs\<rparr>
          \<and> pcolumns ins = filter (\<lambda>c. c \<noteq> t) (pcolumns M)
          \<and> set (pcolumns outs) = {t}
          \<and> prows ins = map (cells_where (\<lambda>c. c \<noteq> t) (pcolumns M)) (prows M)
          \<and> prows outs = map (cells_where (\<lambda>c. c = t) (pcolumns M)) (prows M)
          \<and> length (prows ins) = length (prows M)
          \<and> length (prows outs) = length (prows M)
          \<and> (distinct (pcolumns M) \<and> (\<forall>r\<in>set (prows M). length r = length (pcolumns M))
               \<longrightarrow> pcolumns outs = [t]
                 \<and> (\<forall>i<length (pcolumns M). pcolumns M ! i = t \<longrightarrow>
                       prows outs = map (\<lambda>r. [r ! i]) (prows M)
                     \<and> prows ins = map (\<lambda>r. take i r @ drop (Suc i) r) (prows M)))))
   \<and> (targets ds = None \<longrightarrow> to_pyfunc ds = Inr \<lparr>inputs = M, outputs = None\<rparr>)"
proof (intro conjI impI)
  assume "targets ds = Some t \<and> t \<notin> set (pcolumns M)"
  then show "to_pyfunc ds = Inl (MlflowException INTERNAL_ERROR)"
    using to_pyfunc_absent [of ds t] M by simp
next
  assume a: "targets ds = Some t \<and> t \<in> set (pcolumns M)"
  then have run: "to_pyfunc ds = Inr \<lparr>inputs = drop_columns t M, outputs = Some (getitem M t)\<rparr>"
    using to_pyfunc_present [of ds t] M by simp
  have "set (filter (\<lambda>c. c = t) (pcolumns M)) = {t}"
    using a by auto
  then have basic: "pcolumns (drop_columns t M) = filter (\<lambda>c. c \<noteq> t) (pcolumns M)
          \<and> set (pcolumns (getitem M t)) = {t}
          \<and> prows (drop_columns t M) = map (cells_where (\<lambda>c. c \<noteq> t) (pcolumns M)) (prows M)
          \<and> prows (getitem M t) = map (cells_where (\<lambda>c. c = t) (pcolumns M)) (prows M)
          \<and> length (prows (drop_columns t M)) = length (prows M)
          \<and> length (prows (getitem M t)) = length (prows M)"
    by (simp add: drop_columns_def getitem_def)
  have positional: "distinct (pcolumns M) \<and> (\<forall>r\<in>set (prows M). length r = length (pcolumns M))
               \<longrightarrow> pcolumns (getitem M t) = [t]
                 \<and> (\<forall>i<length (pcolumns M). pcolumns M ! i = t \<longrightarrow>
                       prows (getitem M t) = map (\<lambda>r. [r ! i]) (prows M)
                     \<and> prows (drop_columns t M)
                         = map (\<lambda>r. take i r @ drop (Suc i) r) (prows M))"
  proof (intro impI conjI allI)
    assume wf: "distinct (pcolumns M) \<and> (\<forall>r\<in>set (prows M). length r = length (pcolumns M))"
    with a show "pcolumns (getitem M t) = [t]"
      by (simp add: getitem_def filter_eq_distinct)
    fix i assume i: "i < length (pcolumns M)" "pcolumns M ! i = t"
    from wf i getitem_by_position [of M i]
    show "prows (getitem M t) = map (\<lambda>r. [r ! i]) (prows M)" by simp
    from wf i drop_columns_by_position [of M i]
    show "prows (drop_columns t M) = map (\<lambda>r. take i r @ drop (Suc i) r) (prows M)" by simp
  qed
  from run basic positional show "\<exists>ins outs.
            to_pyfunc ds = Inr \<lparr>inputs = ins, outputs = Some outs\<rparr>
          \<and> pcolumns ins = filter (\<lambda>c. c \<noteq> t) (pcolumns M)
          \<and> set (pcolumns outs) = {t}
          \<and> prows ins = map (cells_where (\<lambda>c. c \<noteq> t) (pcolumns M)) (prows M)
          \<and> prows outs = map (cells_where (\<lambda>c. c = t) (pcolumns M)) (prows M)
          \<and> length (prows ins) = length (prows M)
          \<and> length (prows outs) = length (prows M)
          \<and> (distinct (pcolumns M) \<and> (\<forall>r\<in>set (prows M). length r = length (pcolumns M))
               \<longrightarrow> pcolumns outs = [t]
                 \<and> (\<forall>i<length (pcolumns M). pcolumns M ! i = t \<longrightarrow>
                       prows outs = map (\<lambda>r. [r ! i]) (prows M)
                     \<and> prows ins = map (\<lambda>r. take i r @ drop (Suc i) r) (prows M)))"
    by blast
next
  assume "targets ds = None"
  then show "to_pyfunc ds = Inr \<lparr>inputs = M, outputs = None\<rparr>"
    using to_pyfunc_unset [of ds] M by simp
qed

theorem to_pyfunc_split_witness:
  "to_pyfunc (xy_dataset\<lparr>targets := Some ''z''\<rparr>) = Inl (MlflowException INTERNAL_ERROR)
   \<and> to_pyfunc (xy_dataset\<lparr>targets := None\<rparr>) =
     Inr \<lparr>inputs = \<lparr>pcolumns = [''x'', ''y''], prows = [[1, 10], [2, 20], [3, 30]]\<rparr>,
          outputs = None\<rparr>
   \<and> (\<exists>ins outs. to_pyfunc xy_dataset = Inr \<lparr>inputs = ins, outputs = Some outs\<rparr>
         \<and> pcolumns ins = [''x''] \<and> pcolumns outs = [''y'']
         \<and> prows ins = [[1], [2], [3]] \<and> prows outs = [[10], [20], [30]])"
proof -
  let ?M = "\<lparr>pcolumns = [''x'', ''y''], prows = [[1, 10], [2, 20], [3, 30::int]]\<rparr>"
  have m1: "?M = toPandas (limit 10000 (df xy_dataset))"
    and m2: "?M = toPandas (limit 10000 (df (xy_dataset\<lparr>targets := Some ''z''\<rparr>)))"
    and m3: "?M = toPandas (limit 10000 (df (xy_dataset\<lparr>targets := None\<rparr>)))"
    by (simp_all add: xy_dataset_def xy_materialized)
  have t: "targets xy_dataset = Some ''y''" by (simp add: xy_dataset_def)
  have a: "to_pyfunc (xy_dataset\<lparr>targets := Some ''z''\<rparr>) = Inl (MlflowException INTERNAL_ERROR)"
    using to_pyfunc_split [OF m2, of "''z''"] by simp
  have b: "to_pyfunc (xy_dataset\<lparr>targets := None\<rparr>) = Inr \<lparr>inputs = ?M, outputs = None\<rparr>"
    using to_pyfunc_split [OF m3, of "''z''"] by simp
  have c: "\<exists>ins outs. to_pyfunc xy_dataset = Inr \<lparr>inputs = ins, outputs = Some outs\<rparr>
         \<and> pcolumns ins = [''x''] \<and> pcolumns outs = [''y'']
         \<and> prows ins = [[1], [2], [3]] \<and> prows outs = [[10], [20], [30]]"
    using to_pyfunc_split [OF m1, of "''y''"] t by (simp add: cells_where_def) blast
  from a b c show ?thesis by blast
qed

lemma to_pyfunc_row_count:
  "to_pyfunc ds = Inr r \<Longrightarrow> length (prows (inputs r)) = min (length (rows (df ds))) 10000"
  by (cases "targets ds")
     (auto simp add: to_pyfunc_def Let_def drop_columns_def toPandas_def limit_def
        split: if_splits)

lemma to_pyfunc_outputs_row_count:
  "to_pyfunc ds = Inr r \<Longrightarrow> outputs r = Some outs
     \<Longrightarrow> length (prows outs) = min (length (rows (df ds))) 10000"
  by (cases "targets ds")
     (auto simp add: to_pyfunc_def Let_def getitem_def toPandas_def limit_def
        split: if_splits)

lemma to_pyfunc_prefix:
  "to_pyfunc ds = Inr r \<Longrightarrow>
     prows (inputs r) =
       (case targets ds of
          None \<Rightarrow> take 10000 (rows (df ds))
        | Some t \<Rightarrow> map (cells_where (\<lambda>c. c \<noteq> t) (columns (df ds))) (take 10000 (rows (df ds))))"
  by (cases "targets ds")
     (auto simp add: to_pyfunc_def Let_def drop_columns_def toPandas_def limit_def
        split: if_splits)

text \<open>
  C3. The materialized table holds the first 10000 rows of the dataframe, in the
  dataframe's order, so a successful \<^verbatim>\<open>to_pyfunc\<close> on \<open>n\<close> rows returns inputs (and
  outputs, when there are any) of \<open>min n 10000\<close> rows, taken from that prefix; 15000 rows
  give 10000.
\<close>

theorem to_pyfunc_row_cap:
  assumes "to_pyfunc ds = Inr r"
  shows "prows (toPandas (limit 10000 (df ds))) = take 10000 (rows (df ds))
   \<and> length (prows (inputs r)) = min (length (rows (df ds))) 10000
   \<and> (\<forall>outs. outputs r = Some outs \<longrightarrow> length (prows outs) = min (length (rows (df ds))) 10000)
   \<and> prows (inputs r) =
       (case targets ds of
          None \<Rightarrow> take 10000 (rows (df ds))
        | Some t \<Rightarrow> map (cells_where (\<lambda>c. c \<noteq> t) (columns (df ds))) (take 10000 (rows (df ds))))
   \<and> (length (rows (df ds)) = 15000 \<longrightarrow> length (prows (inputs r)) = 10000)"
proof -
  have n: "length (prows (inputs r)) = min (length (rows (df ds))) 10000"
    using assms by (rule to_pyfunc_row_count)
  have "length (rows (df ds)) = 15000 \<longrightarrow> length (prows (inputs r)) = 10000"
    using n by simp
  moreover have "\<forall>outs. outputs r = Some outs \<longrightarrow> length (prows outs) = min (length (rows (df ds))) 10000"
    using assms by (simp add: to_pyfunc_outputs_row_count)
  ultimately show ?thesis
    using n to_pyfunc_prefix [OF assms] materialized_rows(1) [of 10000 "df ds"] by simp
qed

theorem to_pyfunc_row_cap_witness:
  "length (rows (df big_dataset)) = 15000
   \<and> to_pyfunc big_dataset =
       Inr \<lparr>inputs = drop_columns ''y'' (toPandas (limit 10000 big_table)),
            outputs = Some (getitem (toPandas (limit 10000 big_table)) ''y'')\<rparr>
   \<and> length (prows (drop_columns ''y'' (toPandas (limit 10000 big_table)))) = 10000
   \<and> length (prows (getitem (toPandas (limit 10000 big_table)) ''y'')) = 10000"
proof -
  have n: "length (rows (df big_dataset)) = 15000"
    by (simp add: big_dataset_def big_table_def)
  have t: "targets big_dataset = Some ''y''" and d: "df big_dataset = big_table"
    by (simp_all add: big_dataset_def)
  have c: "''y'' \<in> set (pcolumns (toPandas (limit 10000 (df big_dataset))))"
    by (simp add: d materialized_rows big_table_def)
  have run: "to_pyfunc big_dataset =
       Inr \<lparr>inputs = drop_columns ''y'' (toPandas (limit 10000 big_table)),
            outputs = Some (getitem (toPandas (limit 10000 big_table)) ''y'')\<rparr>"
    using to_pyfunc_present [OF t c] by (simp add: d)
  have cap: "length (prows (inputs \<lparr>inputs = drop_columns ''y'' (toPandas (limit 10000 big_table)),
            outputs = Some (getitem (toPandas (limit 10000 big_table)) ''y'')\<rparr>))
          = min (length (rows (df big_dataset))) 10000"
    using to_pyfunc_row_cap [OF run] by blast
  have cap_out: "\<forall>outs. outputs \<lparr>inputs = drop_columns ''y'' (toPandas (limit 10000 big_table)),
            outputs = Some (getitem (toPandas (limit 10000 big_table)) ''y'')\<rparr> = Some outs
           \<longrightarrow> length (prows outs) = min (length (rows (df big_dataset))) 10000"
    using to_pyfunc_row_cap [OF run] by blast
  from cap cap_out n run show ?thesis by simp
qed

subsection \<open>The schema property\<close>

lemma no_warning_attribute: "''_warning'' \<notin> set Logger_attributes"
  by (simp add: Logger_attributes_def)

lemma logger_call_warning: "logger_call ''_warning'' = Inl AttributeError"
  by (simp add: logger_call_def no_warning_attribute)

lemma schema_body_failure:
  "infer_schema e (df ds) = None \<Longrightarrow> schema_body e ds = (Inl AttributeError, [InferSchema])"
  by (simp add: schema_body_def logger_call_warning)

lemma schema_body_success:
  "infer_schema e (df ds) = Some s \<Longrightarrow> schema_body e ds = (Inr (Some s), [InferSchema])"
  by (simp add: schema_body_def)

lemma schema_inference_failure:
  "schema_cache ds = None \<Longrightarrow> infer_schema e (df ds) = None
     \<Longrightarrow> schema e ds = (Inl AttributeError, ds, [InferSchema])"
  by (simp add: schema_def schema_body_failure)

lemma schema_inference_success:
  "schema_cache ds = None \<Longrightarrow> infer_schema e (df ds) = Some s
     \<Longrightarrow> schema e ds = (Inr (Some s), ds\<lparr>schema_cache := Some (Some s)\<rparr>, [InferSchema])"
  by (simp add: schema_def schema_body_success)

lemma schema_cached:
  "schema_cache ds = Some v \<Longrightarrow> schema e ds = (Inr v, ds, [])"
  by (simp add: schema_def)

lemma schema_never_null_uncached:
  "schema_cache ds = None \<Longrightarrow> fst (schema e ds) \<noteq> Inr None"
  by (cases "infer_schema e (df ds)")
     (simp_all add: schema_inference_failure schema_inference_success)

lemma odd_dataset_fails:
  "schema_cache odd_dataset = None" "infer_schema stub_env (df odd_dataset) = None"
  by (simp_all add: odd_dataset_def odd_table_def stub_env_def)

text \<open>
  C4. The claim: when the inference utility raises during the first access to
  \<^verbatim>\<open>schema\<close>, the access logs a warning and returns \<^verbatim>\<open>None\<close>. The handler calls
  \<^verbatim>\<open>_logger._warning\<close>, which no logger has, so on the dataset whose inference fails the
  access ends in an \<^verbatim>\<open>AttributeError\<close>: no \<^verbatim>\<open>None\<close> is returned, nothing is logged and
  nothing is cached.
\<close>

theorem schema_failure_raises:
  "schema stub_env odd_dataset = (Inl AttributeError, odd_dataset, [InferSchema])
   \<and> fst (schema stub_env odd_dataset) \<noteq> Inr None
   \<and> LoggerCall ''warning'' \<notin> set (snd (snd (schema stub_env odd_dataset)))"
  by (simp add: schema_inference_failure [OF odd_dataset_fails])

text \<open>
  What \<^verbatim>\<open>cached_property\<close> does keep: once an access to \<^verbatim>\<open>schema\<close> has returned a
  value \<open>v\<close>, every later access returns \<open>v\<close>, leaves the dataset as it is and calls
  nothing, whatever the dataframe has become in the meantime and whatever the inference
  utility would now answer.
\<close>

lemma schema_memoized:
  assumes "schema e ds = (Inr v, ds', tr)"
  shows "schema_cache ds' = Some v
       \<and> (\<forall>e' d. schema e' (ds'\<lparr>df := d\<rparr>) = (Inr v, ds'\<lparr>df := d\<rparr>, []))
       \<and> schema e ds' = (Inr v, ds', [])"
proof -
  have c: "schema_cache ds' = Some v"
  proof (cases "schema_cache ds")
    case (Some w)
    with assms show ?thesis by (simp add: schema_def)
  next
    case None
    with assms show ?thesis
      by (auto simp add: schema_def split: prod.splits sum.splits)
  qed
  then have "\<And>e' d. schema e' (ds'\<lparr>df := d\<rparr>) = (Inr v, ds'\<lparr>df := d\<rparr>, [])"
    by (simp add: schema_def)
  with c show ?thesis by (simp add: schema_cached)
qed

lemma schema_memoized_example:
  "schema stub_env xy_dataset =
     (Inr (Some [''x'', ''y'']), xy_dataset\<lparr>schema_cache := Some (Some [''x'', ''y''])\<rparr>,
      [InferSchema])
   \<and> schema stub_env (xy_dataset\<lparr>schema_cache := Some (Some [''x'', ''y'']), df := odd_table\<rparr>) =
     (Inr (Some [''x'', ''y'']),
      xy_dataset\<lparr>schema_cache := Some (Some [''x'', ''y'']), df := odd_table\<rparr>, [])"
proof -
  have first: "schema stub_env xy_dataset =
     (Inr (Some [''x'', ''y'']), xy_dataset\<lparr>schema_cache := Some (Some [''x'', ''y''])\<rparr>,
      [InferSchema])"
    by (rule schema_inference_success)
       (simp_all add: xy_dataset_def xy_table_def stub_env_def)
  from schema_memoized [OF first] first show ?thesis by simp
qed

text \<open>
  C5. The claim: the schema is memoized after its first computation, whether that
  succeeded or yielded \<^verbatim>\<open>None\<close>, and no later access invokes the inference utility
  again. A first computation that fails does not yield \<^verbatim>\<open>None\<close>: the handler raises, so
  nothing is stored, and on the dataset whose inference fails the second access finds no
  entry, invokes the inference utility again and raises again.
\<close>

theorem schema_failure_not_memoized:
  "schema stub_env odd_dataset = (Inl AttributeError, odd_dataset, [InferSchema])
   \<and> schema_cache (fst (snd (schema stub_env odd_dataset))) = None
   \<and> schema stub_env (fst (snd (schema stub_env odd_dataset)))
       = (Inl AttributeError, odd_dataset, [InferSchema])
   \<and> InferSchema \<in> set (snd (snd (schema stub_env (fst (snd (schema stub_env odd_dataset))))))"
  by (simp add: schema_inference_failure [OF odd_dataset_fails] odd_dataset_fails(1))

subsection \<open>Serialisation\<close>

lemma to_dict_inference_failure:
  "schema_cache ds = None \<Longrightarrow> infer_schema e (df ds) = None
     \<Longrightarrow> to_dict e ds base_dict = (Inl AttributeError, ds, [InferSchema])"
  by (simp add: to_dict_def schema_inference_failure)

lemma to_dict_null_schema:
  "schema_cache ds = Some None \<Longrightarrow> to_dict e ds base_dict = (Inl AttributeError, ds, [])"
  by (simp add: to_dict_def schema_cached)

lemma to_dict_available:
  "schema e ds = (Inr (Some s), ds', tr) \<Longrightarrow>
     to_dict e ds base_dict =
       (Inr (base_dict
              (''schema'' \<mapsto> json_dumps e (JDict [(''mlflow_colspec'', schema_to_dict e s)]),
               ''profile'' \<mapsto>
                 json_dumps e (JDict [(''approx_count'', JInt (countApprox e (df ds') 1000 90))]))),
        ds', tr @ [CountApprox 1000 90])"
  by (simp add: to_dict_def profile_def)

lemma to_dict_keeps_base:
  "to_dict e ds base_dict = (Inr m, ds', tr) \<Longrightarrow> k \<noteq> ''schema'' \<Longrightarrow> k \<noteq> ''profile''
     \<Longrightarrow> m k = base_dict k"
  by (auto simp add: to_dict_def profile_def split: prod.splits sum.splits option.splits)

text \<open>
  C8. The claim: serialisation yields the base fields plus the JSON-encoded schema and
  profile when these are available, and succeeds with the schema left out when the schema
  is null. With a schema at hand the two entries are added as \<open>to_dict_available\<close> says.
  Without one the claim fails: on the dataset whose inference fails the access to
  \<^verbatim>\<open>self.schema\<close> raises, and on a dataset whose cached schema is \<^verbatim>\<open>None\<close> the call
  \<^verbatim>\<open>.to_dict()\<close> on \<^verbatim>\<open>None\<close> raises; both end in an \<^verbatim>\<open>AttributeError\<close> and no
  dictionary is returned.
\<close>

theorem to_dict_schema_unavailable:
  "to_dict stub_env odd_dataset example_base_dict
     = (Inl AttributeError, odd_dataset, [InferSchema])
   \<and> to_dict stub_env (odd_dataset\<lparr>schema_cache := Some None\<rparr>) example_base_dict
     = (Inl AttributeError, odd_dataset\<lparr>schema_cache := Some None\<rparr>, [])"
  by (simp add: to_dict_inference_failure [OF odd_dataset_fails] to_dict_null_schema)

subsection \<open>The factory \<^verbatim>\<open>from_spark\<close>\<close>

lemma SparkDataset_init_missing:
  "targets_missing tg d
     \<Longrightarrow> SparkDataset_init d src tg nm dg = Inl (MlflowException INVALID_PARAMETER_VALUE)"
  by (simp add: SparkDataset_init_def)

lemma SparkDataset_init_present:
  "\<not> targets_missing tg d
     \<Longrightarrow> SparkDataset_init d src tg nm dg
           = Inr \<lparr>df = d, targets = tg, source = src, name = nm, digest = dg,
                  schema_cache = None\<rparr>"
  by (simp add: SparkDataset_init_def Dataset_init_def)

lemma from_spark_source_fails_iff:
  assumes "count_list [path, table_name, sql] None = 2" "count_list [sql, version] None \<noteq> 0"
  shows "(\<exists>tr. from_spark_source e path table_name version sql
              = (Inl (MlflowException INVALID_PARAMETER_VALUE), tr))
         = from_spark_spec_invalid e path table_name version sql"
    and "(\<exists>src tr. from_spark_source e path table_name version sql = (Inr src, tr))
         = (\<not> from_spark_spec_invalid e path table_name version sql)"
  using assms
  by (cases path; cases table_name; cases sql; cases version;
      simp add: from_spark_source_def from_spark_spec_invalid_def or_else_def split: prod.splits)+

lemma from_spark_early:
  "count_list [path, table_name, sql] None \<noteq> 2 \<or> count_list [sql, version] None = 0
     \<Longrightarrow> from_spark e d path table_name version sql tg nm dg
           = (Inl (MlflowException INVALID_PARAMETER_VALUE), [])"
  by (auto simp add: from_spark_def)

lemma from_spark_late:
  "count_list [path, table_name, sql] None = 2 \<Longrightarrow> count_list [sql, version] None \<noteq> 0
     \<Longrightarrow> from_spark e d path table_name version sql tg nm dg
           = (case from_spark_source e path table_name version sql of
                (Inl err, tr) \<Rightarrow> (Inl err, tr)
              | (Inr src, tr) \<Rightarrow> (SparkDataset_init d src tg nm dg, tr))"
  by (simp add: from_spark_def)

lemma spec_invalid_early:
  "count_list [path, table_name, sql] None \<noteq> 2 \<or> count_list [sql, version] None = 0
     \<Longrightarrow> from_spark_spec_invalid e path table_name version sql"
  by (cases sql; cases version; auto simp add: from_spark_spec_invalid_def)

text \<open>
  C6, as amended. \<^verbatim>\<open>from_spark\<close> fails with \<^verbatim>\<open>INVALID_PARAMETER_VALUE\<close> exactly when
  the arguments are in one of the three configurations of the specification, or
  \<open>targets\<close> is given and is not a column of the dataframe. In every other configuration
  it returns a dataset holding the dataframe, the targets, the name and the digest it was
  given.
\<close>

theorem from_spark_invalid_parameter_iff:
  "(fst (from_spark e d path table_name version sql tg nm dg
           :: (error + ('c, 's) SparkDataset) \<times> event list)
      = Inl (MlflowException INVALID_PARAMETER_VALUE))
     = (from_spark_spec_invalid e path table_name version sql \<or> targets_missing tg d)
   \<and> (\<not> from_spark_spec_invalid e path table_name version sql \<and> \<not> targets_missing tg d
        \<longrightarrow> (\<exists>src. fst (from_spark e d path table_name version sql tg nm dg
                           :: (error + ('c, 's) SparkDataset) \<times> event list)
                  = Inr \<lparr>df = d, targets = tg, source = src, name = nm, digest = dg,
                         schema_cache = None\<rparr>))"
proof (cases "count_list [path, table_name, sql] None \<noteq> 2 \<or> count_list [sql, version] None = 0")
  case True
  then show ?thesis
    using from_spark_early [OF True, of e d tg nm dg] spec_invalid_early [OF True, of e]
    by simp
next
  case False
  then have c: "count_list [path, table_name, sql] None = 2" "count_list [sql, version] None \<noteq> 0"
    by simp_all
  note late = from_spark_late [OF c, of e d tg nm dg]
  show ?thesis
  proof (cases "from_spark_spec_invalid e path table_name version sql")
    case True
    then obtain tr where "from_spark_source e path table_name version sql
              = (Inl (MlflowException INVALID_PARAMETER_VALUE), tr)"
      using from_spark_source_fails_iff(1) [OF c, of e] by blast
    with True late show ?thesis by simp
  next
    case False
    then obtain src tr where src: "from_spark_source e path table_name version sql = (Inr src, tr)"
      using from_spark_source_fails_iff(2) [OF c, of e] by blast
    show ?thesis
    proof (cases "targets_missing tg d")
      case True
      with False late src show ?thesis by (simp add: SparkDataset_init_missing)
    next
      case no: False
      with False late src show ?thesis by (simp add: SparkDataset_init_present)
    qed
  qed
qed

theorem from_spark_invalid_parameter_iff_witness:
  "fst (from_spark stub_env xy_table (Some ''/data/t'') None None None (Some ''y'') None None)
     = Inr \<lparr>df = xy_table, targets = Some ''y'',
            source = SparkDatasetSource (Some ''/data/t'') None None, name = None,
            digest = None, schema_cache = None\<rparr>
   \<and> fst (from_spark stub_env xy_table (Some ''/data/t'') None (Some ''3'') None (Some ''y'') None
            None :: (error + (int, string list) SparkDataset) \<times> event list)
     = Inl (MlflowException INVALID_PARAMETER_VALUE)"
proof -
  have ok: "\<not> from_spark_spec_invalid stub_env (Some ''/data/t'') None None None"
    and bad: "from_spark_spec_invalid stub_env (Some ''/data/t'') None (Some ''3'') None"
    by (simp_all add: from_spark_spec_invalid_def stub_env_def)
  have tg: "\<not> targets_missing (Some ''y'') xy_table"
    by (simp add: targets_missing_def xy_table_def)
  have src: "fst (from_spark_source stub_env (Some ''/data/t'') None None None)
               = Inr (SparkDatasetSource (Some ''/data/t'') None None)"
    by (simp add: from_spark_source_def stub_env_def)
  have 1: "\<exists>src. fst (from_spark stub_env xy_table (Some ''/data/t'') None None None
                       (Some ''y'') None None)
     = Inr \<lparr>df = xy_table, targets = Some ''y'', source = src, name = None,
            digest = None, schema_cache = None\<rparr>"
    using from_spark_invalid_parameter_iff
      [of stub_env xy_table "Some ''/data/t''" None None None "Some ''y''" None None] ok tg
    by blast
  have 2: "fst (from_spark stub_env xy_table (Some ''/data/t'') None (Some ''3'') None (Some ''y'') None
            None :: (error + (int, string list) SparkDataset) \<times> event list)
     = Inl (MlflowException INVALID_PARAMETER_VALUE)"
    using from_spark_invalid_parameter_iff
      [of stub_env xy_table "Some ''/data/t''" None "Some ''3''" None "Some ''y''" None None] bad
    by blast
  from 1 src 2 show ?thesis
    by (auto simp add: from_spark_def SparkDataset_init_def Dataset_init_def split: prod.splits)
qed

text \<open>
  C6, as stated, fails: with a path alone and no version the arguments are in none of the
  three configurations, yet a \<open>targets\<close> that is not a column makes the constructor, and
  so \<^verbatim>\<open>from_spark\<close>, fail with \<^verbatim>\<open>INVALID_PARAMETER_VALUE\<close>.
\<close>

theorem from_spark_targets_counterexample:
  "fst (from_spark stub_env xy_table (Some ''/data/t'') None None None (Some ''z'') None None)
     = Inl (MlflowException INVALID_PARAMETER_VALUE)
   \<and> \<not> from_spark_spec_invalid stub_env (Some ''/data/t'') None None None"
  by (simp add: from_spark_def from_spark_source_def from_spark_spec_invalid_def stub_env_def
      SparkDataset_init_def targets_missing_def xy_table_def)

subsection \<open>The version that \<^verbatim>\<open>from_spark\<close> records\<close>

lemma or_else_truthy: "v \<noteq> [] \<Longrightarrow> or_else (Some v) rhs = (Some v, [])"
  by (simp add: or_else_def truthy_def)

lemma or_else_falsy: "or_else None rhs = rhs" "or_else (Some []) rhs = rhs"
  by (simp_all add: or_else_def truthy_def)

lemma from_spark_source_delta_path:
  "is_delta_table_path e p \<Longrightarrow> v \<noteq> []
     \<Longrightarrow> from_spark_source e (Some p) None (Some v) None
           = (Inr (DeltaDatasetSource (Some p) None (Some v)), [IsDeltaTablePath p])"
  by (simp add: from_spark_source_def or_else_truthy)

lemma from_spark_source_delta_table:
  "is_delta_table e t \<Longrightarrow> v \<noteq> []
     \<Longrightarrow> from_spark_source e None (Some t) (Some v) None
           = (Inr (DeltaDatasetSource None (Some t) (Some v)), [IsDeltaTable t])"
  by (simp add: from_spark_source_def or_else_truthy)

lemma from_spark_success_shape:
  assumes "from_spark e d path table_name (Some v) sql tg nm dg = (Inr ds, tr)"
  shows "sql = None \<and> ((\<exists>p. path = Some p \<and> table_name = None)
                        \<or> (\<exists>t. path = None \<and> table_name = Some t))"
  using assms
  by (cases path; cases table_name; cases sql; simp add: from_spark_def)

lemma from_spark_success_source:
  assumes "from_spark e d path table_name version sql tg nm dg = (Inr ds, tr)"
  shows "from_spark_source e path table_name version sql = (Inr (source ds), tr)"
  using assms
  by (auto simp add: from_spark_def SparkDataset_init_def Dataset_init_def
      split: if_splits prod.splits sum.splits)

lemma from_spark_delta_run:
  "from_spark stub_env xy_table (Some ''/delta/t'') None (Some ''3'') None None None None
     = (Inr \<lparr>df = xy_table, targets = None,
             source = DeltaDatasetSource (Some ''/delta/t'') None (Some ''3''), name = None,
             digest = None, schema_cache = None\<rparr>,
        [IsDeltaTablePath ''/delta/t''])"
  by (simp add: from_spark_def from_spark_source_def or_else_def truthy_def stub_env_def
      SparkDataset_init_def Dataset_init_def targets_missing_def)

text \<open>
  A version that is a non-empty string is kept: when \<^verbatim>\<open>from_spark\<close> is given such a
  version and a path or a table name that the probe recognizes as a Delta table, and it
  returns a dataset, the dataset's source is the Delta source of that path or table with
  exactly the given version, and no latest-version lookup has been made.
\<close>

lemma from_spark_keeps_version:
  assumes v: "version = Some v" "v \<noteq> []"
    and run: "from_spark e d path table_name version sql tg nm dg = (Inr ds, tr)"
    and delta: "case path of Some p \<Rightarrow> is_delta_table_path e p
                | None \<Rightarrow> (case table_name of Some t \<Rightarrow> is_delta_table e t | None \<Rightarrow> False)"
  shows "source ds = DeltaDatasetSource path table_name (Some v)
       \<and> (\<forall>x. LatestVersionFromPath x \<notin> set tr \<and> LatestVersionFromTableName x \<notin> set tr)"
proof -
  from run v have shape: "sql = None \<and> ((\<exists>p. path = Some p \<and> table_name = None)
                        \<or> (\<exists>t. path = None \<and> table_name = Some t))"
    using from_spark_success_shape [of e d path table_name v sql tg nm dg ds tr] by simp
  note src = from_spark_success_source [OF run]
  from shape consider
      (by_path) p where "sql = None" "path = Some p" "table_name = None"
    | (by_table) t where "sql = None" "path = None" "table_name = Some t"
    by blast
  then show ?thesis
  proof cases
    case by_path
    with delta have "is_delta_table_path e p" by simp
    from from_spark_source_delta_path [OF this v(2)] src by_path v
    have "source ds = DeltaDatasetSource (Some p) None (Some v)" "tr = [IsDeltaTablePath p]"
      by simp_all
    with by_path show ?thesis by simp
  next
    case by_table
    with delta have "is_delta_table e t" by simp
    from from_spark_source_delta_table [OF this v(2)] src by_table v
    have "source ds = DeltaDatasetSource None (Some t) (Some v)" "tr = [IsDeltaTable t]"
      by simp_all
    with by_table show ?thesis by simp
  qed
qed

lemma from_spark_keeps_version_example:
  "from_spark stub_env xy_table (Some ''/delta/t'') None (Some ''3'') None None None None
     = (Inr \<lparr>df = xy_table, targets = None,
             source = DeltaDatasetSource (Some ''/delta/t'') None (Some ''3''), name = None,
             digest = None, schema_cache = None\<rparr>,
        [IsDeltaTablePath ''/delta/t''])
   \<and> source \<lparr>df = xy_table, targets = None,
             source = DeltaDatasetSource (Some ''/delta/t'') None (Some ''3''), name = None,
             digest = None, schema_cache = (None :: string list option option)\<rparr>
       = DeltaDatasetSource (Some ''/delta/t'') None (Some ''3'')
   \<and> LatestVersionFromPath ''/delta/t'' \<notin> set [IsDeltaTablePath ''/delta/t'']"
proof -
  have d: "case Some ''/delta/t'' of Some p \<Rightarrow> is_delta_table_path stub_env p
           | None \<Rightarrow> (case None of Some t \<Rightarrow> is_delta_table stub_env t | None \<Rightarrow> False)"
    by (simp add: stub_env_def)
  have ne: "''3'' \<noteq> []" by simp
  from from_spark_keeps_version [OF refl ne from_spark_delta_run d] from_spark_delta_run
  show ?thesis by simp
qed

text \<open>
  C10. The claim: a version that is not null, given with a path or table recognized as a
  Delta table, is recorded in the source exactly as given, and the latest version is not
  looked up. The empty string is such a version, and \<^verbatim>\<open>version or ...\<close> takes it for
  absent: the latest version is looked up and the source carries 7, not the string the
  caller gave. The other paths take the empty string for a given version: \<^verbatim>\<open>load_delta\<close>
  records it without a lookup, and \<^verbatim>\<open>from_spark\<close> itself rejects it for a path that is
  not a Delta table.
\<close>

theorem from_spark_empty_version_lookup:
  "from_spark stub_env xy_table (Some ''/delta/t'') None (Some '''') None None None None
     = (Inr \<lparr>df = xy_table, targets = None,
             source = DeltaDatasetSource (Some ''/delta/t'') None (Some ''7''), name = None,
             digest = None, schema_cache = None\<rparr>,
        [IsDeltaTablePath ''/delta/t'', LatestVersionFromPath ''/delta/t''])
   \<and> load_delta stub_env (Some ''/delta/t'') None (Some '''') None None None
     = (Inr \<lparr>df = xy_table, targets = None,
             source = DeltaDatasetSource (Some ''/delta/t'') None (Some ''''), name = None,
             digest = None, schema_cache = None\<rparr>,
        [SourceLoad (DeltaDatasetSource (Some ''/delta/t'') None (Some ''''))])
   \<and> from_spark stub_env xy_table (Some ''/data/t'') None (Some '''') None None None None
     = (Inl (MlflowException INVALID_PARAMETER_VALUE), [IsDeltaTablePath ''/data/t''])"
  by (simp add: from_spark_def from_spark_source_def or_else_def truthy_def stub_env_def
      load_delta_def load_delta_version_def load_delta_name_def
      SparkDataset_init_def Dataset_init_def targets_missing_def Let_def)

subsection \<open>The factory \<^verbatim>\<open>load_delta\<close>\<close>

lemma load_delta_early:
  "count_list [path, table_name] None \<noteq> 1
     \<Longrightarrow> load_delta e path table_name version tg nm dg
           = (Inl (MlflowException INVALID_PARAMETER_VALUE), [])"
  by (simp add: load_delta_def)

lemma load_delta_load_fails:
  "count_list [path, table_name] None = 1
     \<Longrightarrow> source_load e (DeltaDatasetSource path table_name
                         (fst (load_delta_version e path table_name version))) = None
     \<Longrightarrow> load_delta e path table_name version tg nm dg
           = (Inl EngineFailure,
              snd (load_delta_version e path table_name version)
                @ [SourceLoad (DeltaDatasetSource path table_name
                                 (fst (load_delta_version e path table_name version)))])"
  by (cases "load_delta_version e path table_name version") (simp add: load_delta_def Let_def)

lemma load_delta_loaded:
  "count_list [path, table_name] None = 1
     \<Longrightarrow> source_load e (DeltaDatasetSource path table_name
                         (fst (load_delta_version e path table_name version))) = Some d
     \<Longrightarrow> load_delta e path table_name version tg nm dg
           = (SparkDataset_init d
                (DeltaDatasetSource path table_name
                   (fst (load_delta_version e path table_name version)))
                tg
                (load_delta_name nm table_name (fst (load_delta_version e path table_name version)))
                dg,
              snd (load_delta_version e path table_name version)
                @ [SourceLoad (DeltaDatasetSource path table_name
                                 (fst (load_delta_version e path table_name version)))])"
  by (cases "load_delta_version e path table_name version") (simp add: load_delta_def Let_def)

lemma load_delta_version_by_path:
  "fst (load_delta_version e (Some p) table_name version)
     = (case version of None \<Rightarrow> try_get_delta_table_latest_version_from_path e p
        | Some v \<Rightarrow> Some v)"
  by (cases version) (simp_all add: load_delta_version_def)

lemma load_delta_version_by_table:
  "fst (load_delta_version e None (Some t) version)
     = (case version of None \<Rightarrow> try_get_delta_table_latest_version_from_table_name e t
        | Some v \<Rightarrow> Some v)"
  by (cases version) (simp_all add: load_delta_version_def)

lemma load_delta_name_default:
  "load_delta_name None (Some t) (Some v) = Some (t @ ''v'' @ v)"
  "load_delta_name None (Some t) None = Some t"
  "load_delta_name (Some n) table_name version = Some n"
  "load_delta_name None None version = None"
  by (simp_all add: load_delta_name_def)

lemma load_delta_version_given:
  "version \<noteq> None \<Longrightarrow> fst (load_delta_version e path table_name version) = version"
  by (auto simp add: load_delta_version_def)

lemma load_delta_name_cases:
  "load_delta_name nm table_name version
     = (case nm of
          Some n \<Rightarrow> Some n
        | None \<Rightarrow>
            (case table_name of
               None \<Rightarrow> None
             | Some t \<Rightarrow> Some (t @ (case version of Some v \<Rightarrow> ''v'' @ v | None \<Rightarrow> []))))"
  by (cases nm; cases table_name) (simp_all add: load_delta_name_def)

text \<open>
  C7, as amended. Let \<open>v'\<close> be the version after resolution and \<open>src\<close> the Delta source
  built from the path, the table name and \<open>v'\<close>. \<^verbatim>\<open>load_delta\<close> fails with
  \<^verbatim>\<open>INVALID_PARAMETER_VALUE\<close> exactly when neither or both of path and table name are
  given, or the load succeeds and \<open>targets\<close> is given and is not a column of the loaded
  dataframe. When exactly one of the two is given: a given version is kept and a missing
  one is the latest version, looked up by path or by table name; when the load succeeds
  and \<open>targets\<close> is absent or a column, the dataset is returned, with a given name kept
  and a missing one derived from a table name as the table name followed by \<^verbatim>\<open>v\<close> and
  the version (the table name alone when no version was found; no name with a path);
  when the load fails, its failure is the result.
\<close>

theorem load_delta_outcome:
  assumes v': "v' = fst (load_delta_version e path table_name version)"
    and src: "src = DeltaDatasetSource path table_name v'"
  shows
   "(fst (load_delta e path table_name version tg nm dg
            :: (error + ('c, 's) SparkDataset) \<times> event list)
       = Inl (MlflowException INVALID_PARAMETER_VALUE))
      = (count_list [path, table_name] None \<noteq> 1
         \<or> (\<exists>d. source_load e src = Some d \<and> targets_missing tg d))
    \<and> (count_list [path, table_name] None = 1 \<longrightarrow>
         (version \<noteq> None \<longrightarrow> v' = version)
       \<and> (\<forall>p. version = None \<and> path = Some p
              \<longrightarrow> v' = try_get_delta_table_latest_version_from_path e p)
       \<and> (\<forall>t. version = None \<and> table_name = Some t
              \<longrightarrow> v' = try_get_delta_table_latest_version_from_table_name e t)
       \<and> (\<forall>d. source_load e src = Some d \<and> \<not> targets_missing tg d \<longrightarrow>
             fst (load_delta e path table_name version tg nm dg)
               = Inr \<lparr>df = d, targets = tg, source = src,
                      name = (case nm of
                                Some n \<Rightarrow> Some n
                              | None \<Rightarrow>
                                  (case table_name of
                                     None \<Rightarrow> None
                                   | Some t \<Rightarrow>
                                       Some (t @ (case v' of Some v \<Rightarrow> ''v'' @ v | None \<Rightarrow> [])))),
                      digest = dg, schema_cache = None\<rparr>)
       \<and> (source_load e src = None \<longrightarrow>
             fst (load_delta e path table_name version tg nm dg
                    :: (error + ('c, 's) SparkDataset) \<times> event list) = Inl EngineFailure))"
proof (cases "count_list [path, table_name] None = 1")
  case False
  then show ?thesis by (simp add: load_delta_early)
next
  case one: True
  have given: "version \<noteq> None \<longrightarrow> v' = version"
    by (simp add: v' load_delta_version_given)
  have by_path: "\<forall>p. version = None \<and> path = Some p
              \<longrightarrow> v' = try_get_delta_table_latest_version_from_path e p"
    by (simp add: v' load_delta_version_by_path)
  have by_table: "\<forall>t. version = None \<and> table_name = Some t
              \<longrightarrow> v' = try_get_delta_table_latest_version_from_table_name e t"
    using one by (cases path; cases table_name) (simp_all add: v' load_delta_version_by_table)
  show ?thesis
  proof (cases "source_load e src")
    case None
    then have "load_delta e path table_name version tg nm dg
                 = (Inl EngineFailure,
                    snd (load_delta_version e path table_name version) @ [SourceLoad src])"
      using load_delta_load_fails [OF one, of e version tg nm dg] by (simp add: src v')
    with None one given by_path by_table show ?thesis by simp
  next
    case (Some d)
    then have run: "load_delta e path table_name version tg nm dg
                 = (SparkDataset_init d src tg (load_delta_name nm table_name v') dg,
                    snd (load_delta_version e path table_name version) @ [SourceLoad src])"
      using load_delta_loaded [OF one, of e version d tg nm dg] by (simp add: src v')
    show ?thesis
    proof (cases "targets_missing tg d")
      case True
      with run Some one given by_path by_table show ?thesis
        by (simp add: SparkDataset_init_missing)
    next
      case False
      with run Some one given by_path by_table show ?thesis
        by (simp add: SparkDataset_init_present load_delta_name_cases)
    qed
  qed
qed

theorem load_delta_outcome_witness:
  "fst (load_delta stub_env None (Some ''delta_t'') None (Some ''y'') None None)
     = Inr \<lparr>df = xy_table, targets = Some ''y'',
            source = DeltaDatasetSource None (Some ''delta_t'') (Some ''7''),
            name = Some ''delta_tv7'', digest = None, schema_cache = None\<rparr>
   \<and> fst (load_delta stub_env (Some ''/delta/t'') (Some ''delta_t'') None (Some ''y'') None None
            :: (error + (int, string list) SparkDataset) \<times> event list)
     = Inl (MlflowException INVALID_PARAMETER_VALUE)"
proof -
  have v: "Some ''7'' = fst (load_delta_version stub_env None (Some ''delta_t'') None)"
    and v2: "Some ''7'' = fst (load_delta_version stub_env (Some ''/delta/t'') (Some ''delta_t'') None)"
    by (simp_all add: load_delta_version_def stub_env_def)
  have one: "count_list [None, Some ''delta_t''] None = 1"
    and both: "count_list [Some ''/delta/t'', Some ''delta_t''] None \<noteq> 1"
    by simp_all
  have loaded: "source_load stub_env (DeltaDatasetSource None (Some ''delta_t'') (Some ''7''))
                  = Some xy_table"
    by (simp add: stub_env_def)
  have tg: "\<not> targets_missing (Some ''y'') xy_table"
    by (simp add: targets_missing_def xy_table_def)
  have 1: "fst (load_delta stub_env None (Some ''delta_t'') None (Some ''y'') None None)
     = Inr \<lparr>df = xy_table, targets = Some ''y'',
            source = DeltaDatasetSource None (Some ''delta_t'') (Some ''7''),
            name = Some ''delta_tv7'', digest = None, schema_cache = None\<rparr>"
    using load_delta_outcome [OF v refl, of "Some ''y''" None None] one loaded tg
    by simp
  have 2: "fst (load_delta stub_env (Some ''/delta/t'') (Some ''delta_t'') None (Some ''y'') None None
            :: (error + (int, string list) SparkDataset) \<times> event list)
     = Inl (MlflowException INVALID_PARAMETER_VALUE)"
    using load_delta_outcome [OF v2 refl, of "Some ''y''" None None] both
    by blast
  from 1 2 show ?thesis by simp
qed

text \<open>
  C7, as stated, fails: a path alone is given, so exactly one of the two, yet a
  \<open>targets\<close> that is not a column of the loaded table makes \<^verbatim>\<open>load_delta\<close> fail with
  \<^verbatim>\<open>INVALID_PARAMETER_VALUE\<close>, after the version lookup and the load.
\<close>

theorem load_delta_targets_counterexample:
  "load_delta stub_env (Some ''/delta/t'') None None (Some ''z'') None None
     = (Inl (MlflowException INVALID_PARAMETER_VALUE),
        [LatestVersionFromPath ''/delta/t'',
         SourceLoad (DeltaDatasetSource (Some ''/delta/t'') None (Some ''7''))])
   \<and> count_list [Some ''/delta/t'', None] None = (1::nat)"
  by (simp add: load_delta_def load_delta_version_def load_delta_name_def stub_env_def
      SparkDataset_init_def targets_missing_def xy_table_def)

subsection \<open>When the parameter errors are raised\<close>

lemma version_with_sql:
  "(count_list [sql, version] None = 0) = (sql \<noteq> None \<and> version \<noteq> (None :: string option))"
  by (cases sql; cases version) simp_all

lemma from_spark_non_delta_path:
  "version \<noteq> None \<Longrightarrow> \<not> is_delta_table_path e p
     \<Longrightarrow> from_spark e d (Some p) None version None tg nm dg
           = (Inl (MlflowException INVALID_PARAMETER_VALUE), [IsDeltaTablePath p])"
  by (cases version) (simp_all add: from_spark_def from_spark_source_def)

lemma from_spark_non_delta_table:
  "version \<noteq> None \<Longrightarrow> \<not> is_delta_table e t
     \<Longrightarrow> from_spark e d None (Some t) version None tg nm dg
           = (Inl (MlflowException INVALID_PARAMETER_VALUE), [IsDeltaTable t])"
  by (cases version) (simp_all add: from_spark_def from_spark_source_def)

lemma from_spark_targets_sql:
  "targets_missing tg d
     \<Longrightarrow> from_spark e d None None None (Some q) tg nm dg
           = (Inl (MlflowException INVALID_PARAMETER_VALUE), [])"
  by (simp add: from_spark_def from_spark_source_def SparkDataset_init_missing)

lemma from_spark_targets_path:
  assumes "targets_missing tg d"
  shows "\<not> is_delta_table_path e p
           \<Longrightarrow> from_spark e d (Some p) None None None tg nm dg
                 = (Inl (MlflowException INVALID_PARAMETER_VALUE), [IsDeltaTablePath p])"
    and "is_delta_table_path e p
           \<Longrightarrow> from_spark e d (Some p) None None None tg nm dg
                 = (Inl (MlflowException INVALID_PARAMETER_VALUE),
                    [IsDeltaTablePath p, LatestVersionFromPath p])"
    and "is_delta_table_path e p \<Longrightarrow> v \<noteq> []
           \<Longrightarrow> from_spark e d (Some p) None (Some v) None tg nm dg
                 = (Inl (MlflowException INVALID_PARAMETER_VALUE), [IsDeltaTablePath p])"
  using assms
  by (simp_all add: from_spark_def from_spark_source_def or_else_truthy or_else_falsy
      SparkDataset_init_missing)

lemma from_spark_targets_table:
  assumes "targets_missing tg d"
  shows "\<not> is_delta_table e t
           \<Longrightarrow> from_spark e d None (Some t) None None tg nm dg
                 = (Inl (MlflowException INVALID_PARAMETER_VALUE), [IsDeltaTable t])"
    and "is_delta_table e t
           \<Longrightarrow> from_spark e d None (Some t) None None tg nm dg
                 = (Inl (MlflowException INVALID_PARAMETER_VALUE),
                    [IsDeltaTable t, LatestVersionFromTableName t])"
    and "is_delta_table e t \<Longrightarrow> v \<noteq> []
           \<Longrightarrow> from_spark e d None (Some t) (Some v) None tg nm dg
                 = (Inl (MlflowException INVALID_PARAMETER_VALUE), [IsDeltaTable t])"
  using assms
  by (simp_all add: from_spark_def from_spark_source_def or_else_truthy or_else_falsy
      SparkDataset_init_missing)

lemma load_delta_targets_path:
  assumes "targets_missing tg d"
    and "source_load e (DeltaDatasetSource (Some p) None
            (case version of None \<Rightarrow> try_get_delta_table_latest_version_from_path e p
             | Some v \<Rightarrow> Some v)) = Some d"
  shows "load_delta e (Some p) None version tg nm dg
           = (Inl (MlflowException INVALID_PARAMETER_VALUE),
              (case version of None \<Rightarrow> [LatestVersionFromPath p] | Some v \<Rightarrow> [])
                @ [SourceLoad (DeltaDatasetSource (Some p) None
                     (case version of None \<Rightarrow> try_get_delta_table_latest_version_from_path e p
                      | Some v \<Rightarrow> Some v))])"
  using assms
  by (cases version)
     (simp_all add: load_delta_def load_delta_version_def Let_def SparkDataset_init_missing)

lemma load_delta_targets_table:
  assumes "targets_missing tg d"
    and "source_load e (DeltaDatasetSource None (Some t)
            (case version of None \<Rightarrow> try_get_delta_table_latest_version_from_table_name e t
             | Some v \<Rightarrow> Some v)) = Some d"
  shows "load_delta e None (Some t) version tg nm dg
           = (Inl (MlflowException INVALID_PARAMETER_VALUE),
              (case version of None \<Rightarrow> [LatestVersionFromTableName t] | Some v \<Rightarrow> [])
                @ [SourceLoad (DeltaDatasetSource None (Some t)
                     (case version of
                        None \<Rightarrow> try_get_delta_table_latest_version_from_table_name e t
                      | Some v \<Rightarrow> Some v))])"
  using assms
  by (cases version)
     (simp_all add: load_delta_def load_delta_version_def Let_def SparkDataset_init_missing)

lemma construct_targets:
  "targets_missing tg d
     \<Longrightarrow> construct d src tg nm dg = (Inl (MlflowException INVALID_PARAMETER_VALUE), [])"
  by (simp add: construct_def SparkDataset_init_missing)

text \<open>
  C9, as amended. The \<^verbatim>\<open>INVALID_PARAMETER_VALUE\<close> errors are raised after exactly the
  calls listed here (a version that is the empty string is left aside). None at all, so before any call to the engine: the error of a direct
  construction, the errors for missing or duplicate source specifiers in \<^verbatim>\<open>load_delta\<close>
  and \<^verbatim>\<open>from_spark\<close>, and the error for a version given together with a query. The Delta
  probe of the given path or table and nothing else: the error for a version given for a
  path or table that is not a Delta table. For a \<open>targets\<close> that is not a column, raised
  through \<^verbatim>\<open>from_spark\<close>: no call with a query; with a path or table, its Delta probe,
  followed by the latest-version lookup for it when it is a Delta table and no version is
  given, and by nothing when it is a Delta table and the version is a non-empty string.
  Raised through \<^verbatim>\<open>load_delta\<close>: the latest-version lookup when no version is given,
  then the load of the resolved source.
\<close>

theorem invalid_parameter_timing:
  fixes e :: "('c, 's) env"
  shows
  "(targets_missing tg d \<longrightarrow>
      (construct d src tg nm dg :: (error + ('c, 's) SparkDataset) \<times> event list)
        = (Inl (MlflowException INVALID_PARAMETER_VALUE), []))
   \<and> (count_list [path, table_name] None \<noteq> 1 \<longrightarrow>
      load_delta e path table_name version tg nm dg
        = (Inl (MlflowException INVALID_PARAMETER_VALUE), []))
   \<and> (count_list [path, table_name, sql] None \<noteq> 2 \<or> (sql \<noteq> None \<and> version \<noteq> None) \<longrightarrow>
      from_spark e d path table_name version sql tg nm dg
        = (Inl (MlflowException INVALID_PARAMETER_VALUE), []))
   \<and> (version \<noteq> None \<and> \<not> is_delta_table_path e p \<longrightarrow>
      from_spark e d (Some p) None version None tg nm dg
        = (Inl (MlflowException INVALID_PARAMETER_VALUE), [IsDeltaTablePath p]))
   \<and> (version \<noteq> None \<and> \<not> is_delta_table e t \<longrightarrow>
      from_spark e d None (Some t) version None tg nm dg
        = (Inl (MlflowException INVALID_PARAMETER_VALUE), [IsDeltaTable t]))
   \<and> (targets_missing tg d \<longrightarrow>
        from_spark e d None None None (Some q) tg nm dg
          = (Inl (MlflowException INVALID_PARAMETER_VALUE), [])
      \<and> (\<not> is_delta_table_path e p \<longrightarrow>
            from_spark e d (Some p) None None None tg nm dg
              = (Inl (MlflowException INVALID_PARAMETER_VALUE), [IsDeltaTablePath p]))
      \<and> (is_delta_table_path e p \<longrightarrow>
            from_spark e d (Some p) None None None tg nm dg
              = (Inl (MlflowException INVALID_PARAMETER_VALUE),
                 [IsDeltaTablePath p, LatestVersionFromPath p]))
      \<and> (is_delta_table_path e p \<and> v \<noteq> [] \<longrightarrow>
            from_spark e d (Some p) None (Some v) None tg nm dg
              = (Inl (MlflowException INVALID_PARAMETER_VALUE), [IsDeltaTablePath p]))
      \<and> (\<not> is_delta_table e t \<longrightarrow>
            from_spark e d None (Some t) None None tg nm dg
              = (Inl (MlflowException INVALID_PARAMETER_VALUE), [IsDeltaTable t]))
      \<and> (is_delta_table e t \<longrightarrow>
            from_spark e d None (Some t) None None tg nm dg
              = (Inl (MlflowException INVALID_PARAMETER_VALUE),
                 [IsDeltaTable t, LatestVersionFromTableName t]))
      \<and> (is_delta_table e t \<and> v \<noteq> [] \<longrightarrow>
            from_spark e d None (Some t) (Some v) None tg nm dg
              = (Inl (MlflowException INVALID_PARAMETER_VALUE), [IsDeltaTable t]))
      \<and> (source_load e (DeltaDatasetSource (Some p) None
              (case version of None \<Rightarrow> try_get_delta_table_latest_version_from_path e p
               | Some w \<Rightarrow> Some w)) = Some d \<longrightarrow>
            load_delta e (Some p) None version tg nm dg
              = (Inl (MlflowException INVALID_PARAMETER_VALUE),
                 (case version of None \<Rightarrow> [LatestVersionFromPath p] | Some w \<Rightarrow> [])
                   @ [SourceLoad (DeltaDatasetSource (Some p) None
                        (case version of
                           None \<Rightarrow> try_get_delta_table_latest_version_from_path e p
                         | Some w \<Rightarrow> Some w))]))
      \<and> (source_load e (DeltaDatasetSource None (Some t)
              (case version of None \<Rightarrow> try_get_delta_table_latest_version_from_table_name e t
               | Some w \<Rightarrow> Some w)) = Some d \<longrightarrow>
            load_delta e None (Some t) version tg nm dg
              = (Inl (MlflowException INVALID_PARAMETER_VALUE),
                 (case version of None \<Rightarrow> [LatestVersionFromTableName t] | Some w \<Rightarrow> [])
                   @ [SourceLoad (DeltaDatasetSource None (Some t)
                        (case version of
                           None \<Rightarrow> try_get_delta_table_latest_version_from_table_name e t
                         | Some w \<Rightarrow> Some w))])))"
proof (intro conjI impI)
  assume "targets_missing tg d"
  then show "(construct d src tg nm dg :: (error + ('c, 's) SparkDataset) \<times> event list)
        = (Inl (MlflowException INVALID_PARAMETER_VALUE), [])"
    by (rule construct_targets)
next
  assume "count_list [path, table_name] None \<noteq> 1"
  then show "load_delta e path table_name version tg nm dg
        = (Inl (MlflowException INVALID_PARAMETER_VALUE), [])"
    by (rule load_delta_early)
next
  assume "count_list [path, table_name, sql] None \<noteq> 2 \<or> (sql \<noteq> None \<and> version \<noteq> None)"
  then have "count_list [path, table_name, sql] None \<noteq> 2 \<or> count_list [sql, version] None = 0"
    by (simp only: version_with_sql)
  then show "from_spark e d path table_name version sql tg nm dg
        = (Inl (MlflowException INVALID_PARAMETER_VALUE), [])"
    by (rule from_spark_early)
next
  assume "version \<noteq> None \<and> \<not> is_delta_table_path e p"
  then show "from_spark e d (Some p) None version None tg nm dg
        = (Inl (MlflowException INVALID_PARAMETER_VALUE), [IsDeltaTablePath p])"
    by (simp add: from_spark_non_delta_path)
next
  assume "version \<noteq> None \<and> \<not> is_delta_table e t"
  then show "from_spark e d None (Some t) version None tg nm dg
        = (Inl (MlflowException INVALID_PARAMETER_VALUE), [IsDeltaTable t])"
    by (simp add: from_spark_non_delta_table)
next
  assume tm: "targets_missing tg d"
  show "from_spark e d None None None (Some q) tg nm dg
          = (Inl (MlflowException INVALID_PARAMETER_VALUE), [])"
    using tm by (rule from_spark_targets_sql)
  show "from_spark e d (Some p) None None None tg nm dg
          = (Inl (MlflowException INVALID_PARAMETER_VALUE), [IsDeltaTablePath p])"
    if "\<not> is_delta_table_path e p"
    using tm that by (rule from_spark_targets_path(1))
  show "from_spark e d (Some p) None None None tg nm dg
          = (Inl (MlflowException INVALID_PARAMETER_VALUE),
             [IsDeltaTablePath p, LatestVersionFromPath p])"
    if "is_delta_table_path e p"
    using tm that by (rule from_spark_targets_path(2))
  show "from_spark e d (Some p) None (Some v) None tg nm dg
          = (Inl (MlflowException INVALID_PARAMETER_VALUE), [IsDeltaTablePath p])"
    if "is_delta_table_path e p \<and> v \<noteq> []"
    using tm that by (simp add: from_spark_targets_path(3))
  show "from_spark e d None (Some t) None None tg nm dg
          = (Inl (MlflowException INVALID_PARAMETER_VALUE), [IsDeltaTable t])"
    if "\<not> is_delta_table e t"
    using tm that by (rule from_spark_targets_table(1))
  show "from_spark e d None (Some t) None None tg nm dg
          = (Inl (MlflowException INVALID_PARAMETER_VALUE),
             [IsDeltaTable t, LatestVersionFromTableName t])"
    if "is_delta_table e t"
    using tm that by (rule from_spark_targets_table(2))
  show "from_spark e d None (Some t) (Some v) None tg nm dg
          = (Inl (MlflowException INVALID_PARAMETER_VALUE), [IsDeltaTable t])"
    if "is_delta_table e t \<and> v \<noteq> []"
    using tm that by (simp add: from_spark_targets_table(3))
  show "load_delta e (Some p) None version tg nm dg
              = (Inl (MlflowException INVALID_PARAMETER_VALUE),
                 (case version of None \<Rightarrow> [LatestVersionFromPath p] | Some w \<Rightarrow> [])
                   @ [SourceLoad (DeltaDatasetSource (Some p) None
                        (case version of
                           None \<Rightarrow> try_get_delta_table_latest_version_from_path e p
                         | Some w \<Rightarrow> Some w))])"
    if "source_load e (DeltaDatasetSource (Some p) None
              (case version of None \<Rightarrow> try_get_delta_table_latest_version_from_path e p
               | Some w \<Rightarrow> Some w)) = Some d"
    using tm that by (rule load_delta_targets_path)
  show "load_delta e None (Some t) version tg nm dg
              = (Inl (MlflowException INVALID_PARAMETER_VALUE),
                 (case version of None \<Rightarrow> [LatestVersionFromTableName t] | Some w \<Rightarrow> [])
                   @ [SourceLoad (DeltaDatasetSource None (Some t)
                        (case version of
                           None \<Rightarrow> try_get_delta_table_latest_version_from_table_name e t
                         | Some w \<Rightarrow> Some w))])"
    if "source_load e (DeltaDatasetSource None (Some t)
              (case version of None \<Rightarrow> try_get_delta_table_latest_version_from_table_name e t
               | Some w \<Rightarrow> Some w)) = Some d"
    using tm that by (rule load_delta_targets_table)
qed

theorem invalid_parameter_timing_witness:
  "(construct xy_table path_source (Some ''z'') None None
      :: (error + (int, string list) SparkDataset) \<times> event list)
     = (Inl (MlflowException INVALID_PARAMETER_VALUE), [])
   \<and> (load_delta stub_env None None (Some ''1'') (Some ''z'') None None
      :: (error + (int, string list) SparkDataset) \<times> event list)
     = (Inl (MlflowException INVALID_PARAMETER_VALUE), [])
   \<and> from_spark stub_env xy_table None None (Some ''1'') (Some ''select 1'') (Some ''z'') None None
     = (Inl (MlflowException INVALID_PARAMETER_VALUE), [])
   \<and> from_spark stub_env xy_table (Some ''/data/t'') None (Some ''1'') None (Some ''z'') None None
     = (Inl (MlflowException INVALID_PARAMETER_VALUE), [IsDeltaTablePath ''/data/t''])
   \<and> from_spark stub_env xy_table (Some ''/delta/t'') None None None (Some ''z'') None None
     = (Inl (MlflowException INVALID_PARAMETER_VALUE),
        [IsDeltaTablePath ''/delta/t'', LatestVersionFromPath ''/delta/t''])
   \<and> load_delta stub_env (Some ''/delta/t'') None None (Some ''z'') None None
     = (Inl (MlflowException INVALID_PARAMETER_VALUE),
        [LatestVersionFromPath ''/delta/t'',
         SourceLoad (DeltaDatasetSource (Some ''/delta/t'') None (Some ''7''))])"
proof -
  have missing: "targets_missing (Some ''z'') xy_table"
    by (simp add: targets_missing_def xy_table_def)
  have neither: "count_list [None, None :: string option] None \<noteq> 1" by simp
  have conflict: "Some ''select 1'' \<noteq> None \<and> Some ''1'' \<noteq> (None :: string option)" by simp
  have plain: "Some ''1'' \<noteq> None \<and> \<not> is_delta_table_path stub_env ''/data/t''"
    and delta: "is_delta_table_path stub_env ''/delta/t''"
    and loaded: "source_load stub_env (DeltaDatasetSource (Some ''/delta/t'') None
              (case None of
                 None \<Rightarrow> try_get_delta_table_latest_version_from_path stub_env ''/delta/t''
               | Some w \<Rightarrow> Some w)) = Some xy_table"
    by (simp_all add: stub_env_def)
  note early = invalid_parameter_timing
    [where e = stub_env and d = xy_table and src = path_source and tg = "Some ''z''"
       and nm = None and dg = None and path = None and table_name = None
       and version = "Some ''1''" and sql = "Some ''select 1''" and p = "''/data/t''"]
  note late = invalid_parameter_timing
    [where e = stub_env and d = xy_table and tg = "Some ''z''"
       and nm = None and dg = None and version = None and p = "''/delta/t''"]
  from early missing have 1: "(construct xy_table path_source (Some ''z'') None None
      :: (error + (int, string list) SparkDataset) \<times> event list)
     = (Inl (MlflowException INVALID_PARAMETER_VALUE), [])"
    by blast
  from early neither have 2: "(load_delta stub_env None None (Some ''1'') (Some ''z'') None None
      :: (error + (int, string list) SparkDataset) \<times> event list)
     = (Inl (MlflowException INVALID_PARAMETER_VALUE), [])"
    by blast
  from early conflict have 3:
    "from_spark stub_env xy_table None None (Some ''1'') (Some ''select 1'') (Some ''z'') None None
     = (Inl (MlflowException INVALID_PARAMETER_VALUE), [])"
    by blast
  from early plain have 4:
    "from_spark stub_env xy_table (Some ''/data/t'') None (Some ''1'') None (Some ''z'') None None
     = (Inl (MlflowException INVALID_PARAMETER_VALUE), [IsDeltaTablePath ''/data/t''])"
    by blast
  from late missing delta have 5:
    "from_spark stub_env xy_table (Some ''/delta/t'') None None None (Some ''z'') None None
     = (Inl (MlflowException INVALID_PARAMETER_VALUE),
        [IsDeltaTablePath ''/delta/t'', LatestVersionFromPath ''/delta/t''])"
    by blast
  from late missing loaded have "load_delta stub_env (Some ''/delta/t'') None None (Some ''z'') None None
     = (Inl (MlflowException INVALID_PARAMETER_VALUE),
        (case None :: string option of None \<Rightarrow> [LatestVersionFromPath ''/delta/t''] | Some w \<Rightarrow> [])
          @ [SourceLoad (DeltaDatasetSource (Some ''/delta/t'') None
               (case None of
                  None \<Rightarrow> try_get_delta_table_latest_version_from_path stub_env ''/delta/t''
                | Some w \<Rightarrow> Some w))])"
    by blast
  then have 6: "load_delta stub_env (Some ''/delta/t'') None None (Some ''z'') None None
     = (Inl (MlflowException INVALID_PARAMETER_VALUE),
        [LatestVersionFromPath ''/delta/t'',
         SourceLoad (DeltaDatasetSource (Some ''/delta/t'') None (Some ''7''))])"
    by (simp add: stub_env_def)
  from 1 2 3 4 5 6 show ?thesis by blast
qed

text \<open>
  C9, as stated, fails: for a version given with a path that is not a Delta table, the
  error is raised only after the engine has been asked whether the path is a Delta table.
\<close>

theorem invalid_parameter_after_probe_counterexample:
  "from_spark stub_env xy_table (Some ''/data/t'') None (Some ''1'') None None None None
     = (Inl (MlflowException INVALID_PARAMETER_VALUE), [IsDeltaTablePath ''/data/t''])"
  by (simp add: from_spark_def from_spark_source_def stub_env_def)

end
